theory Spec2Isabelle
  imports Complex_Main "HOL-Library.Word"
begin

unbundle bit_operations_syntax

section \<open>Shared data model\<close>

text \<open>
  The repository holds two versions of the application component: \<^verbatim>\<open>src/App.tsx\<close>
  (screen sharing, two audio contexts, transcripts) and \<^verbatim>\<open>src/unnamed/part_000\<close>
  (camera, one audio context, recording). Both are embedded. Definitions of the second
  carry the suffix \<open>_part000\<close>; blocks that are textually the same in both files are
  embedded once, over the fields the two components share.
\<close>

text \<open>\<^verbatim>\<open>src/types.ts\<close>: \<^verbatim>\<open>ConnectionStatus\<close> and \<^verbatim>\<open>TranscriptionEntry\<close>.\<close>

datatype ConnectionStatus = Disconnected | Connecting | Connected | Error

datatype role = User | Model

record TranscriptionEntry =
  entry_role :: role
  entry_text :: string
  entry_timestamp :: int

text \<open>A JavaScript exception value: its \<^verbatim>\<open>name\<close> and its \<^verbatim>\<open>message\<close>.\<close>

datatype exn = Exn (exn_name: string) (exn_message: string)

text \<open>How a callback ends: it runs to its end, or an exception leaves it. The
  mutations made before the exception stay, so the state is returned in both cases.\<close>

datatype outcome = Completed | Threw exn

type_synonym byte = "8 word"

section \<open>Helpers imported from \<^verbatim>\<open>./utils/audioHelpers\<close>\<close>

subsection \<open>Transport encoding\<close>

text \<open>Modelled from the spec: the alphabet of the transport encoding, the character
  of a 6-bit value and the value of a character. They belong to \<^verbatim>\<open>encode\<close> and
  \<^verbatim>\<open>decode\<close> below, which are not among the source files.\<close>

definition b64_alphabet :: string where
  "b64_alphabet = ''ABCDEFGHIJKLMNOPQRSTUVWXYZabcdefghijklmnopqrstuvwxyz0123456789+/''"

definition b64_char :: "nat \<Rightarrow> char" where
  "b64_char i = b64_alphabet ! i"

definition b64_index :: "char \<Rightarrow> nat option" where
  "b64_index c = map_of (zip b64_alphabet [0..<64]) c"

text \<open>
  Modelled from the spec: \<^verbatim>\<open>encode\<close> of \<^verbatim>\<open>utils/audioHelpers\<close> is imported by both
  components and is not among the source files. The spec calls it \<^verbatim>\<open>toTransportText\<close>,
  "a reversible binary-to-text transport encoding"; the callers name its values
  \<^verbatim>\<open>base64Audio\<close> and \<^verbatim>\<open>base64Data\<close>, so the encoding is Base64 with the standard
  alphabet and \<^verbatim>\<open>=\<close> padding: three bytes become four characters.
\<close>

fun encode :: "byte list \<Rightarrow> string" where
  "encode [] = []"
| "encode [a] =
     [b64_char (unat a div 4), b64_char ((unat a mod 4) * 16), CHR ''='', CHR ''='']"
| "encode [a, b] =
     [b64_char (unat a div 4), b64_char ((unat a mod 4) * 16 + unat b div 16),
      b64_char ((unat b mod 16) * 4), CHR ''='']"
| "encode (a # b # c # rest) =
     [b64_char (unat a div 4), b64_char ((unat a mod 4) * 16 + unat b div 16),
      b64_char ((unat b mod 16) * 4 + unat c div 64), b64_char (unat c mod 64)]
     @ encode rest"

text \<open>
  Modelled from the spec: the inverse of the above, read four characters at a time;
  padding is accepted in the last group only. \<open>None\<close> is a text that is not an encoding.
\<close>

fun decode_quads :: "string \<Rightarrow> byte list option" where
  "decode_quads [] = Some []"
| "decode_quads (c1 # c2 # c3 # c4 # rest) =
     (if rest = [] \<and> c4 = CHR ''='' then
        (if c3 = CHR ''='' then
           (case (b64_index c1, b64_index c2) of
              (Some i1, Some i2) \<Rightarrow> Some [of_nat (i1 * 4 + i2 div 16)]
            | _ \<Rightarrow> None)
         else
           (case (b64_index c1, b64_index c2, b64_index c3) of
              (Some i1, Some i2, Some i3) \<Rightarrow>
                Some [of_nat (i1 * 4 + i2 div 16), of_nat ((i2 mod 16) * 16 + i3 div 4)]
            | _ \<Rightarrow> None))
      else
        (case (b64_index c1, b64_index c2, b64_index c3, b64_index c4) of
           (Some i1, Some i2, Some i3, Some i4) \<Rightarrow>
             (case decode_quads rest of
                Some bs \<Rightarrow>
                  Some (of_nat (i1 * 4 + i2 div 16) # of_nat ((i2 mod 16) * 16 + i3 div 4)
                        # of_nat ((i3 mod 4) * 64 + i4) # bs)
              | None \<Rightarrow> None)
         | _ \<Rightarrow> None))"
| "decode_quads _ = None"

text \<open>
  Modelled from the spec: \<^verbatim>\<open>decode\<close> of \<^verbatim>\<open>utils/audioHelpers\<close> (the spec's
  \<^verbatim>\<open>fromTransportText\<close>), not among the source files. A text that is not an encoding
  raises.
\<close>

definition decode :: "string \<Rightarrow> exn + byte list" where
  "decode base64 =
     (case decode_quads base64 of
        None \<Rightarrow> Inl (Exn ''InvalidCharacterError'' ''The string to be decoded is not correctly encoded.'')
      | Some bytes \<Rightarrow> Inr bytes)"

subsection \<open>Audio Buffer Builder\<close>

text \<open>Modelled from the spec: the buffer that \<^verbatim>\<open>decodeAudioData\<close> returns, by its
  rate, its length in frames and the samples of each channel; its duration in seconds;
  and the reading of signed 16-bit little-endian samples. They belong to
  \<^verbatim>\<open>decodeAudioData\<close> below, which is not among the source files.\<close>

record AudioBuffer =
  buf_sampleRate :: nat
  buf_length :: nat
  buf_channelData :: "real list list"

definition duration :: "AudioBuffer \<Rightarrow> real" where
  "duration b = real (buf_length b) / real (buf_sampleRate b)"

definition int16_le :: "byte \<Rightarrow> byte \<Rightarrow> int" where
  "int16_le lo hi =
     (let u = uint lo + 256 * uint hi in if u \<ge> 32768 then u - 65536 else u)"

fun int16_samples :: "byte list \<Rightarrow> int list" where
  "int16_samples (lo # hi # rest) = int16_le lo hi # int16_samples rest"
| "int16_samples _ = []"

text \<open>
  Modelled from the spec: \<^verbatim>\<open>decodeAudioData\<close> of \<^verbatim>\<open>utils/audioHelpers\<close>, not among
  the source files; its third argument, the audio context, does not enter the result.
  Section 4.2 of the spec: the bytes are signed 16-bit little-endian samples, each is
  divided by 32768, \<open>channelCount\<close> interleaved channels are laid out in a buffer
  tagged with \<open>sampleRate\<close>, and the call "fails with DecodeError if byte length is
  not a multiple of channelCount * 2".
\<close>

definition decodeAudioData :: "byte list \<Rightarrow> nat \<Rightarrow> nat \<Rightarrow> exn + AudioBuffer" where
  "decodeAudioData data sampleRate numChannels =
     (if length data mod (numChannels * 2) \<noteq> 0 then
        Inl (Exn ''DecodeError'' ''byte length is not a multiple of the frame size'')
      else
        (let samples = map (\<lambda>v. real_of_int v / 32768) (int16_samples data);
             frameCount = length samples div numChannels
         in Inr \<lparr>buf_sampleRate = sampleRate, buf_length = frameCount,
                 buf_channelData =
                   map (\<lambda>c. map (\<lambda>f. samples ! (f * numChannels + c)) [0..<frameCount])
                       [0..<numChannels]\<rparr>))"

section \<open>Capture Encoder\<close>

text \<open>
  A sample of the microphone block (\<^verbatim>\<open>Float32Array\<close>): a finite value, or one of the
  non-finite values of the number type. Multiplying a 32-bit float by 32768 is exact in
  double precision, so the product of a finite sample is the real product.
\<close>

datatype sample = Finite real | NaN | PosInfinity | NegInfinity

text \<open>
  Storing a number in an \<^verbatim>\<open>Int16Array\<close> (ECMAScript \<^verbatim>\<open>ToInt16\<close>): a non-finite number
  becomes 0, a finite one is truncated towards zero and taken modulo \<open>2 ^ 16\<close>.
\<close>

definition truncate_toward_zero :: "real \<Rightarrow> int" where
  "truncate_toward_zero x = (if x < 0 then \<lceil>x\<rceil> else \<lfloor>x\<rfloor>)"

definition ToInt16 :: "sample \<Rightarrow> 16 word" where
  "ToInt16 v = (case v of Finite x \<Rightarrow> word_of_int (truncate_toward_zero x) | _ \<Rightarrow> 0)"

definition scale_sample :: "sample \<Rightarrow> sample" where
  "scale_sample v = (case v of Finite x \<Rightarrow> Finite (x * 32768) | other \<Rightarrow> other)"

text \<open>The loop of \<^verbatim>\<open>onaudioprocess\<close>: \<^verbatim>\<open>int16[i] = inputData[i] * 32768\<close> for every \<open>i\<close>.\<close>

definition int16_block :: "sample list \<Rightarrow> 16 word list" where
  "int16_block inputData = map (\<lambda>v. ToInt16 (scale_sample v)) inputData"

text \<open>\<^verbatim>\<open>new Uint8Array(int16.buffer)\<close>: the bytes of the samples, low byte first.\<close>

definition buffer_bytes :: "16 word list \<Rightarrow> byte list" where
  "buffer_bytes ws = concat (map (\<lambda>w. [ucast w, ucast (drop_bit 8 w)]) ws)"

record Blob =
  blob_data :: string
  blob_mimeType :: string

text \<open>\<^verbatim>\<open>onaudioprocess\<close> builds one chunk for each block; \<open>rate\<close> is the text of the
  tag, \<^verbatim>\<open>16000\<close> in \<^verbatim>\<open>src/App.tsx\<close> and \<^verbatim>\<open>44100\<close> in \<^verbatim>\<open>part_000\<close>.\<close>

definition onaudioprocess :: "string \<Rightarrow> sample list \<Rightarrow> Blob" where
  "onaudioprocess rate inputData =
     \<lparr>blob_data = encode (buffer_bytes (int16_block inputData)),
      blob_mimeType = ''audio/pcm;rate='' @ rate\<rparr>"

section \<open>State of a session\<close>

datatype track = AudioTrack | VideoTrack

type_synonym MediaStream = "track list"

record AudioContext =
  ctx_sampleRate :: nat
  ctx_closed :: bool

datatype recorder_state = Inactive | Recording | Paused

text \<open>An \<^verbatim>\<open>AudioBufferSourceNode\<close>, a playback voice. \<open>node_id\<close> is the identity of
  the object: the in-flight set compares its members by identity.\<close>

record AudioBufferSourceNode =
  node_id :: nat
  node_buffer :: AudioBuffer
  node_start :: real
  node_to_mixer :: bool

text \<open>The calls a callback makes on the platform, in the order it makes them.\<close>

datatype stream_ref = StreamRef | ScreenStreamRef | MediaStreamRef

datatype ctx_ref = AudioContextInRef | AudioContextOutRef | AudioContextRef

datatype effect =
    RecorderStop
  | ClearInterval nat
  | SessionDropped
  | TrackStop stream_ref track
  | SourceStop nat
  | SourceStopRaised nat
  | ContextClose ctx_ref
  | SourceStart nat real

text \<open>
  The React state and the refs that both components declare. \<open>audioSourcesRef\<close> is a
  \<^verbatim>\<open>Set\<close>, which iterates in insertion order: a list without repetition. \<open>effects\<close>
  is the record of platform calls made so far and \<open>nodeCount\<close> the number of source
  nodes created so far; neither is a variable of the program.
\<close>

record session_refs =
  status :: ConnectionStatus
  error :: "string option"
  sessionRef :: "nat option"
  frameIntervalRef :: "nat option"
  nextStartTimeRef :: real
  audioSourcesRef :: "AudioBufferSourceNode list"
  effects :: "effect list"
  nodeCount :: nat

text \<open>\<^verbatim>\<open>src/App.tsx\<close>\<close>

record app = session_refs +
  transcriptions :: "TranscriptionEntry list"
  isScreenSharing :: bool
  audioContextInRef :: "AudioContext option"
  audioContextOutRef :: "AudioContext option"
  streamRef :: "MediaStream option"
  screenStreamRef :: "MediaStream option"
  currentInputTranscriptionRef :: string
  currentOutputTranscriptionRef :: string

text \<open>\<^verbatim>\<open>src/unnamed/part_000\<close>. The list of finished recordings and its panel are
  presentation and are left out.\<close>

record phone = session_refs +
  isFullRecordingSupported :: bool
  audioContextRef :: "AudioContext option"
  mediaStreamRef :: "MediaStream option"
  mediaRecorderRef :: "recorder_state option"
  recordingMixerRef :: "unit option"

text \<open>The state of a freshly mounted component: the arguments of \<^verbatim>\<open>useState\<close> and
  \<^verbatim>\<open>useRef\<close>.\<close>

definition initial_app :: app where
  "initial_app =
     \<lparr>status = Disconnected, error = None, sessionRef = None, frameIntervalRef = None,
      nextStartTimeRef = 0, audioSourcesRef = [], effects = [], nodeCount = 0,
      transcriptions = [], isScreenSharing = False, audioContextInRef = None,
      audioContextOutRef = None, streamRef = None, screenStreamRef = None,
      currentInputTranscriptionRef = [], currentOutputTranscriptionRef = []\<rparr>"

definition initial_phone :: phone where
  "initial_phone =
     \<lparr>status = Disconnected, error = None, sessionRef = None, frameIntervalRef = None,
      nextStartTimeRef = 0, audioSourcesRef = [], effects = [], nodeCount = 0,
      isFullRecordingSupported = True, audioContextRef = None, mediaStreamRef = None,
      mediaRecorderRef = None, recordingMixerRef = None\<rparr>"

section \<open>Teardown\<close>

text \<open>What the platform decides when a callback runs: the output device's clock, the
  wall clock, and for each source node whether its \<^verbatim>\<open>stop()\<close> raises.\<close>

record platform =
  currentTime :: real
  dateNow :: int
  stopRaises :: "nat \<Rightarrow> bool"

definition node_stop :: "(nat \<Rightarrow> bool) \<Rightarrow> AudioBufferSourceNode \<Rightarrow> exn + effect" where
  "node_stop raises s =
     (if raises (node_id s) then Inl (Exn ''InvalidStateError'' [])
      else Inr (SourceStop (node_id s)))"

text \<open>\<^verbatim>\<open>audioSourcesRef.current.forEach(s => { try { s.stop(); } catch(e) {} })\<close>\<close>

fun stop_each :: "(nat \<Rightarrow> bool) \<Rightarrow> AudioBufferSourceNode list \<Rightarrow> effect list" where
  "stop_each raises [] = []"
| "stop_each raises (s # rest) =
     (case node_stop raises s of
        Inl e \<Rightarrow> SourceStopRaised (node_id s)
      | Inr done \<Rightarrow> done) # stop_each raises rest"

text \<open>\<^verbatim>\<open>if (frameIntervalRef.current) { window.clearInterval(...); ... = null; }\<close>: the
  test is on a number, and 0 is falsy.\<close>

definition clear_frame_interval :: "'a session_refs_scheme \<Rightarrow> 'a session_refs_scheme" where
  "clear_frame_interval s =
     (case frameIntervalRef s of
        None \<Rightarrow> s
      | Some n \<Rightarrow>
          if n = 0 then s
          else s\<lparr>effects := effects s @ [ClearInterval n], frameIntervalRef := None\<rparr>)"

text \<open>\<^verbatim>\<open>if (sessionRef.current) { sessionRef.current = null; }\<close>\<close>

definition drop_session :: "'a session_refs_scheme \<Rightarrow> 'a session_refs_scheme" where
  "drop_session s =
     (case sessionRef s of
        None \<Rightarrow> s
      | Some h \<Rightarrow> s\<lparr>effects := effects s @ [SessionDropped], sessionRef := None\<rparr>)"

text \<open>The \<^verbatim>\<open>forEach\<close> above followed by \<^verbatim>\<open>audioSourcesRef.current.clear()\<close>.\<close>

definition stop_audio_sources ::
  "(nat \<Rightarrow> bool) \<Rightarrow> 'a session_refs_scheme \<Rightarrow> 'a session_refs_scheme" where
  "stop_audio_sources raises s =
     s\<lparr>effects := effects s @ stop_each raises (audioSourcesRef s), audioSourcesRef := []\<rparr>"

text \<open>\<^verbatim>\<open>stopSession\<close> of \<^verbatim>\<open>src/App.tsx\<close>, lines 44 to 74. The two contexts are closed
  and their refs keep pointing at them.\<close>

definition close_context :: "AudioContext \<Rightarrow> AudioContext" where
  "close_context c = c\<lparr>ctx_closed := True\<rparr>"

definition stopSession :: "(nat \<Rightarrow> bool) \<Rightarrow> app \<Rightarrow> app" where
  "stopSession raises s0 =
     (let s1 = clear_frame_interval s0;
          s2 = drop_session s1;
          s3 = (case streamRef s2 of
                  None \<Rightarrow> s2
                | Some ms \<Rightarrow>
                    s2\<lparr>effects := effects s2 @ map (TrackStop StreamRef) ms,
                       streamRef := None\<rparr>);
          s4 = (case screenStreamRef s3 of
                  None \<Rightarrow> s3
                | Some ms \<Rightarrow>
                    s3\<lparr>effects := effects s3 @ map (TrackStop ScreenStreamRef) ms,
                       screenStreamRef := None\<rparr>);
          s5 = stop_audio_sources raises s4;
          s6 = (case audioContextInRef s5 of
                  None \<Rightarrow> s5
                | Some c \<Rightarrow>
                    s5\<lparr>effects := effects s5 @ [ContextClose AudioContextInRef],
                       audioContextInRef := Some (close_context c)\<rparr>);
          s7 = (case audioContextOutRef s6 of
                  None \<Rightarrow> s6
                | Some c \<Rightarrow>
                    s6\<lparr>effects := effects s6 @ [ContextClose AudioContextOutRef],
                       audioContextOutRef := Some (close_context c)\<rparr>)
      in s7\<lparr>status := Disconnected, isScreenSharing := False\<rparr>)"

text \<open>\<^verbatim>\<open>stopSession\<close> of \<^verbatim>\<open>src/unnamed/part_000\<close>, lines 50 to 80. The recorder is
  stopped first, unless it is inactive; the context is closed and its ref is cleared.\<close>

definition stopSession_part000 :: "(nat \<Rightarrow> bool) \<Rightarrow> phone \<Rightarrow> phone" where
  "stopSession_part000 raises s0 =
     (let s1 = (case mediaRecorderRef s0 of
                  None \<Rightarrow> s0
                | Some st \<Rightarrow>
                    if st \<noteq> Inactive then
                      s0\<lparr>effects := effects s0 @ [RecorderStop],
                         mediaRecorderRef := Some Inactive\<rparr>
                    else s0);
          s2 = clear_frame_interval s1;
          s3 = drop_session s2;
          s4 = (case mediaStreamRef s3 of
                  None \<Rightarrow> s3
                | Some ms \<Rightarrow>
                    s3\<lparr>effects := effects s3 @ map (TrackStop MediaStreamRef) ms,
                       mediaStreamRef := None\<rparr>);
          s5 = stop_audio_sources raises s4;
          s6 = (case audioContextRef s5 of
                  None \<Rightarrow> s5
                | Some c \<Rightarrow>
                    s5\<lparr>effects := effects s5 @ [ContextClose AudioContextRef],
                       audioContextRef := None\<rparr>)
      in s6\<lparr>status := Disconnected\<rparr>)"

section \<open>Inbound events\<close>

text \<open>
  A \<^verbatim>\<open>LiveServerMessage\<close>, by the five things \<^verbatim>\<open>onmessage\<close> reads from its
  \<^verbatim>\<open>serverContent\<close>. A transcription is an object whose \<^verbatim>\<open>text\<close> may be absent. A
  model turn is a \<^verbatim>\<open>Content\<close>, whose \<^verbatim>\<open>parts\<close> may be absent; a part is given by its
  \<^verbatim>\<open>inlineData?.data\<close>, which may be absent.
\<close>

type_synonym Part = "string option"

type_synonym Content = "Part list option"

record LiveServerMessage =
  outputTranscription :: "string option option"
  inputTranscription :: "string option option"
  turnComplete :: bool
  modelTurn :: "Content option"
  interrupted :: bool

text \<open>
  The read \<^verbatim>\<open>message.serverContent?.modelTurn?.parts[0]?.inlineData?.data\<close>. No
  \<^verbatim>\<open>?.\<close> follows \<^verbatim>\<open>parts\<close>: on a model turn without parts the index raises a
  \<^verbatim>\<open>TypeError\<close>. Without a model turn, with no part or with a first part that has
  no data, the value is \<^verbatim>\<open>undefined\<close>.
\<close>

definition inlineData :: "LiveServerMessage \<Rightarrow> exn + string option" where
  "inlineData message =
     (case modelTurn message of
        None \<Rightarrow> Inr None
      | Some None \<Rightarrow> Inl (Exn ''TypeError'' ''Cannot read properties of undefined'')
      | Some (Some []) \<Rightarrow> Inr None
      | Some (Some (part # rest)) \<Rightarrow> Inr part)"

text \<open>\<^verbatim>\<open>acc += text\<close>: an absent text is appended as the word \<^verbatim>\<open>undefined\<close>.\<close>

definition js_append :: "string \<Rightarrow> string option \<Rightarrow> string" where
  "js_append acc t = acc @ (case t of None \<Rightarrow> ''undefined'' | Some txt \<Rightarrow> txt)"

text \<open>\<^verbatim>\<open>xs.slice(-n)\<close>: the last \<open>n\<close> elements, all of them when there are fewer.\<close>

definition slice_last :: "nat \<Rightarrow> 'a list \<Rightarrow> 'a list" where
  "slice_last n xs = drop (length xs - n) xs"

text \<open>Lines 179 to 183 of \<^verbatim>\<open>src/App.tsx\<close>.\<close>

definition accumulate_transcription :: "LiveServerMessage \<Rightarrow> app \<Rightarrow> app" where
  "accumulate_transcription message s =
     (case outputTranscription message of
        Some t \<Rightarrow>
          s\<lparr>currentOutputTranscriptionRef := js_append (currentOutputTranscriptionRef s) t\<rparr>
      | None \<Rightarrow>
          (case inputTranscription message of
             Some t \<Rightarrow>
               s\<lparr>currentInputTranscriptionRef := js_append (currentInputTranscriptionRef s) t\<rparr>
           | None \<Rightarrow> s))"

text \<open>Lines 186 to 198, the body of \<^verbatim>\<open>if (message.serverContent?.turnComplete)\<close>.\<close>

definition flush_turn :: "int \<Rightarrow> app \<Rightarrow> app" where
  "flush_turn now s =
     (let uTrans = currentInputTranscriptionRef s;
          mTrans = currentOutputTranscriptionRef s;
          s1 = (if uTrans \<noteq> [] \<or> mTrans \<noteq> [] then
                  s\<lparr>transcriptions :=
                      slice_last 50
                        (transcriptions s
                         @ (if uTrans \<noteq> [] then
                              [\<lparr>entry_role = User, entry_text = uTrans, entry_timestamp = now\<rparr>]
                            else [])
                         @ (if mTrans \<noteq> [] then
                              [\<lparr>entry_role = Model, entry_text = mTrans, entry_timestamp = now\<rparr>]
                            else []))\<rparr>
                else s)
      in s1\<lparr>currentInputTranscriptionRef := [], currentOutputTranscriptionRef := []\<rparr>)"

text \<open>\<^verbatim>\<open>decodeAudioData(decode(base64Audio), ctx, 24000, 1)\<close>\<close>

definition decode_inbound :: "string \<Rightarrow> exn + AudioBuffer" where
  "decode_inbound base64Audio =
     (case decode base64Audio of
        Inl e \<Rightarrow> Inl e
      | Inr bytes \<Rightarrow> decodeAudioData bytes 24000 1)"

text \<open>
  The body of \<^verbatim>\<open>if (base64Audio && ...)\<close>, lines 203 to 217 of \<^verbatim>\<open>src/App.tsx\<close> and
  222 to 241 of \<^verbatim>\<open>part_000\<close>: the watermark is raised to the device clock, the payload
  is decoded, and a source node is created, started at the watermark and added to the
  set; the watermark advances by the buffer's duration. A decoding that raises leaves
  the callback after the first assignment. \<open>toMixer\<close> is the test
  \<^verbatim>\<open>if (recordingMixerRef.current)\<close> of \<^verbatim>\<open>part_000\<close>.
\<close>

definition schedule_audio ::
  "real \<Rightarrow> bool \<Rightarrow> string \<Rightarrow> 'a session_refs_scheme \<Rightarrow> outcome \<times> 'a session_refs_scheme" where
  "schedule_audio now toMixer base64Audio s =
     (let s1 = s\<lparr>nextStartTimeRef := max (nextStartTimeRef s) now\<rparr> in
      case decode_inbound base64Audio of
        Inl e \<Rightarrow> (Threw e, s1)
      | Inr audioBuffer \<Rightarrow>
          (let source = \<lparr>node_id = nodeCount s1, node_buffer = audioBuffer,
                         node_start = nextStartTimeRef s1, node_to_mixer = toMixer\<rparr>
           in (Completed,
               s1\<lparr>effects := effects s1 @ [SourceStart (node_id source) (node_start source)],
                  nextStartTimeRef := nextStartTimeRef s1 + duration audioBuffer,
                  audioSourcesRef := audioSourcesRef s1 @ [source],
                  nodeCount := Suc (nodeCount s1)\<rparr>)))"

text \<open>The listener of the node's \<^verbatim>\<open>ended\<close> event: \<^verbatim>\<open>audioSourcesRef.current.delete(source)\<close>.\<close>

definition onended :: "nat \<Rightarrow> 'a session_refs_scheme \<Rightarrow> 'a session_refs_scheme" where
  "onended ident s =
     s\<lparr>audioSourcesRef := filter (\<lambda>n. node_id n \<noteq> ident) (audioSourcesRef s)\<rparr>"

text \<open>The body of \<^verbatim>\<open>if (message.serverContent?.interrupted)\<close>, lines 221 to 225 of
  \<^verbatim>\<open>src/App.tsx\<close> and 245 to 247 of \<^verbatim>\<open>part_000\<close>.\<close>

definition on_interrupted ::
  "(nat \<Rightarrow> bool) \<Rightarrow> 'a session_refs_scheme \<Rightarrow> 'a session_refs_scheme" where
  "on_interrupted raises s = (stop_audio_sources raises s)\<lparr>nextStartTimeRef := 0\<rparr>"

text \<open>
  The end of \<^verbatim>\<open>onmessage\<close> in both files, lines 201 to 226 of \<^verbatim>\<open>src/App.tsx\<close> and
  220 to 248 of \<^verbatim>\<open>part_000\<close>: the read of the payload, the audio block and the
  interruption block. \<open>haveContext\<close> is the test of the output context's ref in
  \<^verbatim>\<open>if (base64Audio && ...)\<close>; the string test fails on an absent and on an empty
  payload. The interruption is handled last, and is not reached when the read of the
  payload or the decoding raises.
\<close>

definition play_and_interrupt ::
  "platform \<Rightarrow> LiveServerMessage \<Rightarrow> bool \<Rightarrow> bool \<Rightarrow> 'a session_refs_scheme
     \<Rightarrow> outcome \<times> 'a session_refs_scheme" where
  "play_and_interrupt pf message haveContext toMixer s =
     (case inlineData message of
        Inl e \<Rightarrow> (Threw e, s)
      | Inr base64Audio \<Rightarrow>
          (let audio = (case base64Audio of
                          None \<Rightarrow> (Completed, s)
                        | Some payload \<Rightarrow>
                            if payload \<noteq> [] \<and> haveContext then
                              schedule_audio (currentTime pf) toMixer payload s
                            else (Completed, s))
           in case audio of
                (Threw e, s1) \<Rightarrow> (Threw e, s1)
              | (Completed, s1) \<Rightarrow>
                  (Completed,
                   if interrupted message then on_interrupted (stopRaises pf) s1 else s1)))"

text \<open>\<^verbatim>\<open>onmessage\<close> of \<^verbatim>\<open>src/App.tsx\<close>, lines 178 to 227.\<close>

definition onmessage :: "platform \<Rightarrow> LiveServerMessage \<Rightarrow> app \<Rightarrow> outcome \<times> app" where
  "onmessage pf message s0 =
     (let s1 = accumulate_transcription message s0;
          s2 = (if turnComplete message then flush_turn (dateNow pf) s1 else s1)
      in play_and_interrupt pf message (audioContextOutRef s2 \<noteq> None) False s2)"

text \<open>\<^verbatim>\<open>onmessage\<close> of \<^verbatim>\<open>src/unnamed/part_000\<close>, lines 219 to 249.\<close>

definition onmessage_part000 ::
  "platform \<Rightarrow> LiveServerMessage \<Rightarrow> phone \<Rightarrow> outcome \<times> phone" where
  "onmessage_part000 pf message s0 =
     play_and_interrupt pf message (audioContextRef s0 \<noteq> None)
       (recordingMixerRef s0 \<noteq> None) s0"

text \<open>Messages delivered one after the other, each with what the platform decides at
  its delivery. An exception ends its own callback only.\<close>

fun deliver :: "(platform \<times> LiveServerMessage) list \<Rightarrow> app \<Rightarrow> app" where
  "deliver [] s = s"
| "deliver ((pf, message) # rest) s = deliver rest (snd (onmessage pf message s))"


section \<open>Session start\<close>

text \<open>
  What the platform answers to the acquisitions of \<^verbatim>\<open>startSession\<close>: an exception, or
  the acquired thing. \<open>newAudioContext\<close> is the exception of the context's
  constructor, if it raises; \<open>setInterval\<close> is the timer handle returned in
  \<^verbatim>\<open>onopen\<close>.
\<close>

record acquisition =
  newAudioContext :: "exn option"
  getUserMedia :: "exn + MediaStream"
  connect :: "exn + nat"
  setInterval :: nat

record start_env = acquisition +
  displayMediaSupported :: bool
  getDisplayMedia :: "exn + MediaStream"

datatype mixing = MixingBuilt | DestinationFailed | CombineFailed

record start_env_part000 = acquisition +
  contextSuspended :: bool
  resume :: "exn option"
  mixingGraph :: mixing
  newMediaRecorder :: "exn option"

text \<open>\<^verbatim>\<open>err.message || fallback\<close>\<close>

definition message_or :: "exn \<Rightarrow> string \<Rightarrow> string" where
  "message_or err fallback = (if exn_message err \<noteq> [] then exn_message err else fallback)"

text \<open>The \<^verbatim>\<open>catch\<close> block of \<^verbatim>\<open>startSession\<close>, lines 250 to 255 of \<^verbatim>\<open>src/App.tsx\<close>.\<close>

definition start_catch :: "exn \<Rightarrow> app \<Rightarrow> app" where
  "start_catch err s =
     s\<lparr>error := Some (message_or err ''Failed to start tutor session''),
       status := Disconnected, isScreenSharing := False\<rparr>"

text \<open>The \<^verbatim>\<open>catch\<close> block of \<^verbatim>\<open>startSession\<close>, lines 267 to 271 of \<^verbatim>\<open>part_000\<close>.\<close>

definition start_catch_part000 :: "exn \<Rightarrow> phone \<Rightarrow> phone" where
  "start_catch_part000 err s =
     s\<lparr>error := Some (message_or err ''Access error''), status := Disconnected\<rparr>"

text \<open>\<^verbatim>\<open>onopen\<close>: the status becomes connected, the capture encoder and the frame
  sampler are wired, and the frame timer's handle is kept.\<close>

definition onopen :: "nat \<Rightarrow> 'a session_refs_scheme \<Rightarrow> 'a session_refs_scheme" where
  "onopen timer s = s\<lparr>status := Connected, frameIntervalRef := Some timer\<rparr>"

text \<open>
  \<^verbatim>\<open>startSession\<close> of \<^verbatim>\<open>src/App.tsx\<close>, lines 76 to 256, from the call to the end of
  \<^verbatim>\<open>await sessionPromise\<close> or of the \<^verbatim>\<open>catch\<close> block. The channel calls \<^verbatim>\<open>onopen\<close>
  before the promise of \<^verbatim>\<open>connect\<close> resolves.
\<close>

definition startSession :: "start_env \<Rightarrow> app \<Rightarrow> app" where
  "startSession env s0 =
     (let s1 = s0\<lparr>status := Connecting, error := None\<rparr> in
      if \<not> displayMediaSupported env then
        start_catch
          (Exn ''Error'' ''Screen sharing is not supported in this browser environment.'') s1
      else
        (case newAudioContext env of
           Some e \<Rightarrow> start_catch e s1
         | None \<Rightarrow>
             (let s2 = s1\<lparr>audioContextInRef :=
                            Some \<lparr>ctx_sampleRate = 16000, ctx_closed = False\<rparr>,
                          audioContextOutRef :=
                            Some \<lparr>ctx_sampleRate = 24000, ctx_closed = False\<rparr>\<rparr>
              in case getUserMedia env of
                   Inl e \<Rightarrow> start_catch e s2
                 | Inr micStream \<Rightarrow>
                     (let s3 = s2\<lparr>streamRef := Some micStream\<rparr> in
                      case getDisplayMedia env of
                        Inl e \<Rightarrow>
                          start_catch
                            (if exn_name e = ''NotAllowedError'' then
                               Exn ''Error''
                                 ''Permission denied. Ensure your browser allows screen capture for this site.''
                             else Exn ''Error'' (''Screen capture error: '' @ exn_message e))
                            s3
                      | Inr displayStream \<Rightarrow>
                          (let s4 = s3\<lparr>screenStreamRef := Some displayStream,
                                       isScreenSharing := True\<rparr>
                           in case connect env of
                                Inl e \<Rightarrow> start_catch e s4
                              | Inr session \<Rightarrow>
                                  (onopen (setInterval env) s4)
                                    \<lparr>sessionRef := Some session\<rparr>)))))"

text \<open>
  \<^verbatim>\<open>startSession\<close> of \<^verbatim>\<open>src/unnamed/part_000\<close>, lines 82 to 272. A failure of the
  mixing graph is caught inside (lines 139 to 143) and the session goes on with the
  unmixed stream; \<open>DestinationFailed\<close> is a failure before the mixer's ref is
  assigned, \<open>CombineFailed\<close> one after it.
\<close>

definition startSession_part000 :: "start_env_part000 \<Rightarrow> phone \<Rightarrow> phone" where
  "startSession_part000 env s0 =
     (let s1 = s0\<lparr>status := Connecting, error := None\<rparr> in
      case newAudioContext env of
        Some e \<Rightarrow> start_catch_part000 e s1
      | None \<Rightarrow>
          (case (if contextSuspended env then resume env else None) of
             Some e \<Rightarrow> start_catch_part000 e s1
           | None \<Rightarrow>
               (let s2 = s1\<lparr>audioContextRef :=
                              Some \<lparr>ctx_sampleRate = 44100, ctx_closed = False\<rparr>\<rparr>
                in case getUserMedia env of
                     Inl e \<Rightarrow> start_catch_part000 e s2
                   | Inr stream \<Rightarrow>
                       (let s3 = s2\<lparr>mediaStreamRef := Some stream\<rparr>;
                            s4 = (case mixingGraph env of
                                    MixingBuilt \<Rightarrow>
                                      s3\<lparr>recordingMixerRef := Some (),
                                         isFullRecordingSupported := True\<rparr>
                                  | DestinationFailed \<Rightarrow>
                                      s3\<lparr>isFullRecordingSupported := False\<rparr>
                                  | CombineFailed \<Rightarrow>
                                      s3\<lparr>recordingMixerRef := Some (),
                                         isFullRecordingSupported := False\<rparr>)
                        in case newMediaRecorder env of
                             Some e \<Rightarrow> start_catch_part000 e s4
                           | None \<Rightarrow>
                               (let s5 = s4\<lparr>mediaRecorderRef := Some Recording\<rparr> in
                                case connect env of
                                  Inl e \<Rightarrow> start_catch_part000 e s5
                                | Inr session \<Rightarrow>
                                    (onopen (setInterval env) s5)
                                      \<lparr>sessionRef := Some session\<rparr>)))))"

section \<open>Inputs of the properties\<close>

text \<open>A payload is malformed when it is not a transport text or when it decodes to
  a number of bytes that is not a multiple of 2, the size of a mono frame.\<close>

definition malformed :: "string \<Rightarrow> bool" where
  "malformed base64Audio =
     (case decode base64Audio of Inl e \<Rightarrow> True | Inr bytes \<Rightarrow> length bytes mod 2 \<noteq> 0)"

text \<open>An acquisition of \<^verbatim>\<open>startSession\<close> fails when one of the steps inside its
  \<^verbatim>\<open>try\<close> block raises.\<close>

definition acquisition_fails :: "start_env \<Rightarrow> bool" where
  "acquisition_fails env =
     (\<not> displayMediaSupported env \<or> newAudioContext env \<noteq> None \<or> isl (getUserMedia env)
      \<or> isl (getDisplayMedia env) \<or> isl (connect env))"

definition acquisition_fails_part000 :: "start_env_part000 \<Rightarrow> bool" where
  "acquisition_fails_part000 env =
     (newAudioContext env \<noteq> None \<or> (contextSuspended env \<and> resume env \<noteq> None)
      \<or> isl (getUserMedia env) \<or> newMediaRecorder env \<noteq> None \<or> isl (connect env))"

text \<open>A platform that grants everything, and one that refuses the screen capture
  after granting the microphone.\<close>

definition granted :: start_env where
  "granted =
     \<lparr>newAudioContext = None, getUserMedia = Inr [AudioTrack], connect = Inr 1,
      setInterval = 7, displayMediaSupported = True, getDisplayMedia = Inr [VideoTrack]\<rparr>"

definition display_denied :: start_env where
  "display_denied = granted\<lparr>getDisplayMedia := Inl (Exn ''NotAllowedError'' ''denied'')\<rparr>"

definition granted_part000 :: start_env_part000 where
  "granted_part000 =
     \<lparr>newAudioContext = None, getUserMedia = Inr [AudioTrack, VideoTrack], connect = Inr 1,
      setInterval = 7, contextSuspended = False, resume = None, mixingGraph = MixingBuilt,
      newMediaRecorder = None\<rparr>"

definition channel_refused_part000 :: start_env_part000 where
  "channel_refused_part000 = granted_part000\<lparr>connect := Inl (Exn ''Error'' ''refused'')\<rparr>"

text \<open>A callback at device time \<open>t\<close> on a platform whose \<^verbatim>\<open>stop()\<close> never raises, and
  messages that carry one thing each; the audio message has a model turn of one part.\<close>

definition at_clock :: "real \<Rightarrow> platform" where
  "at_clock t = \<lparr>currentTime = t, dateNow = 0, stopRaises = (\<lambda>n. False)\<rparr>"

definition empty_message :: LiveServerMessage where
  "empty_message =
     \<lparr>outputTranscription = None, inputTranscription = None, turnComplete = False,
      modelTurn = None, interrupted = False\<rparr>"

definition audio_message :: "string \<Rightarrow> LiveServerMessage" where
  "audio_message base64Audio =
     empty_message\<lparr>modelTurn := Some (Some [Some base64Audio])\<rparr>"

definition interruption :: LiveServerMessage where
  "interruption = empty_message\<lparr>interrupted := True\<rparr>"

definition user_turn :: "string \<Rightarrow> LiveServerMessage" where
  "user_turn txt = empty_message\<lparr>inputTranscription := Some (Some txt), turnComplete := True\<rparr>"

text \<open>A connected session with one voice in flight, scheduled from a chunk of one
  silent sample delivered at device time 3.\<close>

definition playing_app :: app where
  "playing_app =
     snd (onmessage (at_clock 3) (audio_message ''AAA='') (startSession granted initial_app))"


section \<open>Notions used by the properties\<close>

subsection \<open>Observable state\<close>




subsection \<open>Order of the teardown steps\<close>

text \<open>The platform calls that one run of \<^verbatim>\<open>stopSession\<close> adds to the record.\<close>

definition teardown_trace :: "(nat \<Rightarrow> bool) \<Rightarrow> app \<Rightarrow> effect list" where
  "teardown_trace raises s = drop (length (effects s)) (effects (stopSession raises s))"

definition teardown_trace_part000 :: "(nat \<Rightarrow> bool) \<Rightarrow> phone \<Rightarrow> effect list" where
  "teardown_trace_part000 raises s =
     drop (length (effects s)) (effects (stopSession_part000 raises s))"

text \<open>
  The place of each call in the order that the spec states: frame timer (1), capture
  encoder subscription (2, no platform call of the program stands for it), channel
  handle (3), playback voices (4), capture devices (5), audio contexts (6). The spec
  does not place the recorder; it is given 0.
\<close>

fun claimed_step :: "effect \<Rightarrow> nat" where
  "claimed_step (ClearInterval n) = 1"
| "claimed_step SessionDropped = 3"
| "claimed_step (SourceStop n) = 4"
| "claimed_step (SourceStopRaised n) = 4"
| "claimed_step (TrackStop r t) = 5"
| "claimed_step (ContextClose r) = 6"
| "claimed_step RecorderStop = 0"
| "claimed_step (SourceStart n t) = 0"

text \<open>The place of each call in the order of the two \<^verbatim>\<open>stopSession\<close> functions:
  recorder, frame timer, channel handle, capture devices, playback voices, contexts.\<close>

fun teardown_step :: "effect \<Rightarrow> nat" where
  "teardown_step RecorderStop = 0"
| "teardown_step (ClearInterval n) = 1"
| "teardown_step SessionDropped = 2"
| "teardown_step (TrackStop r t) = 3"
| "teardown_step (SourceStop n) = 4"
| "teardown_step (SourceStopRaised n) = 4"
| "teardown_step (ContextClose r) = 5"
| "teardown_step (SourceStart n t) = 0"

subsection \<open>Schedules\<close>











text \<open>The 16-bit wrap-around of an integer, read as a signed value.\<close>

definition wrap16 :: "int \<Rightarrow> int" where
  "wrap16 k = (k + 32768) mod 65536 - 32768"

section \<open>Properties\<close>

subsection \<open>Transport encoding\<close>

lemma b64_alphabet_distinct: "distinct b64_alphabet"
  unfolding b64_alphabet_def by simp

lemma b64_index_char: "i < 64 \<Longrightarrow> b64_index (b64_char i) = Some i"
  unfolding b64_index_def b64_char_def
  using map_of_zip_nth[of b64_alphabet "[0..<64]" i] b64_alphabet_distinct
  by (simp add: b64_alphabet_def)

lemma b64_char_all_not_pad: "\<forall>i \<in> set [0..<64]. b64_char i \<noteq> CHR ''=''"
  by code_simp

lemma b64_char_not_pad: "i < 64 \<Longrightarrow> b64_char i \<noteq> CHR ''=''"
  using b64_char_all_not_pad by simp

lemma unat_byte_less: "unat (a :: byte) < 256"
proof -
  have "unat a < 2 ^ LENGTH(8)" by (rule unsigned_less)
  then show ?thesis by simp
qed

lemma sextet_bounds:
  fixes x y z :: nat
  assumes "x < 256" "y < 256" "z < 256"
  shows "x div 4 < 64" "(x mod 4) * 16 + y div 16 < 64" "(y mod 16) * 4 + z div 64 < 64"
    "z mod 64 < 64" "(x mod 4) * 16 < 64" "(y mod 16) * 4 < 64"
  using assms by simp_all

lemma regroup:
  fixes x y z :: nat
  assumes "x < 256" "y < 256" "z < 256"
  shows "(x div 4) * 4 + ((x mod 4) * 16 + y div 16) div 16 = x"
    "(((x mod 4) * 16 + y div 16) mod 16) * 16 + ((y mod 16) * 4 + z div 64) div 4 = y"
    "(((y mod 16) * 4 + z div 64) mod 4) * 64 + z mod 64 = z"
    "(x div 4) * 4 + ((x mod 4) * 16) div 16 = x"
    "(((x mod 4) * 16 + y div 16) mod 16) * 16 + ((y mod 16) * 4) div 4 = y"
  using assms by simp_all

lemma decode_quads_encode: "decode_quads (encode bs) = Some bs"
proof (induction bs rule: encode.induct)
  case 1
  show ?case by simp
next
  case (2 a)
  show ?case
    using regroup(4)[OF unat_byte_less[of a] unat_byte_less[of a] unat_byte_less[of a]]
      sextet_bounds(1,5)[OF unat_byte_less[of a] unat_byte_less[of a] unat_byte_less[of a]]
    by (simp add: b64_index_char)
next
  case (3 a b)
  show ?case
    using regroup(1,5)[OF unat_byte_less[of a] unat_byte_less[of b] unat_byte_less[of b]]
      sextet_bounds(1,2,6)[OF unat_byte_less[of a] unat_byte_less[of b] unat_byte_less[of b]]
    by (simp add: b64_index_char b64_char_not_pad)
next
  case (4 a b c rest)
  show ?case
    using regroup(1,2,3)[OF unat_byte_less[of a] unat_byte_less[of b] unat_byte_less[of c]] "4.IH"
      sextet_bounds(1,2,3,4)[OF unat_byte_less[of a] unat_byte_less[of b] unat_byte_less[of c]]
    by (simp add: b64_index_char b64_char_not_pad)
qed

text \<open>
  C6. For every byte buffer \<open>b\<close>, zero bytes and the full byte range included,
  decoding the transport text of \<open>b\<close> succeeds and gives back \<open>b\<close>:
  \<^verbatim>\<open>fromTransportText(toTransportText(b)) == b\<close>.
\<close>

theorem C6_transport_roundtrip: "decode (encode b) = Inr b"
  by (simp add: decode_def decode_quads_encode)

subsection \<open>Evaluation of the named inputs\<close>

lemma inlineData_examples:
  "inlineData empty_message = Inr None"
  "inlineData (audio_message p) = Inr (Some p)"
  "inlineData interruption = Inr None"
  "inlineData (user_turn txt) = Inr None"
  "\<not> interrupted (audio_message p)"
  by (simp_all add: inlineData_def empty_message_def audio_message_def interruption_def
      user_turn_def)

lemma decode_two_zero_bytes: "decode ''AAA='' = Inr [0, 0]"
  by code_simp

lemma decode_three_zero_bytes: "decode ''AAAA'' = Inr [0, 0, 0]"
  by code_simp

lemma decode_inbound_silence:
  "decode_inbound ''AAA='' = Inr \<lparr>buf_sampleRate = 24000, buf_length = 1, buf_channelData = [[0]]\<rparr>"
  by (simp add: decode_inbound_def decode_two_zero_bytes decodeAudioData_def int16_le_def)

lemma started_app:
  "startSession granted initial_app =
     initial_app\<lparr>status := Connected, sessionRef := Some 1, frameIntervalRef := Some 7,
       isScreenSharing := True,
       audioContextInRef := Some \<lparr>ctx_sampleRate = 16000, ctx_closed = False\<rparr>,
       audioContextOutRef := Some \<lparr>ctx_sampleRate = 24000, ctx_closed = False\<rparr>,
       streamRef := Some [AudioTrack], screenStreamRef := Some [VideoTrack]\<rparr>"
  by (simp add: startSession_def granted_def initial_app_def onopen_def Let_def)

lemma started_phone:
  "startSession_part000 granted_part000 initial_phone =
     initial_phone\<lparr>status := Connected, sessionRef := Some 1, frameIntervalRef := Some 7,
       audioContextRef := Some \<lparr>ctx_sampleRate = 44100, ctx_closed = False\<rparr>,
       mediaStreamRef := Some [AudioTrack, VideoTrack], mediaRecorderRef := Some Recording,
       recordingMixerRef := Some ()\<rparr>"
  by (simp add: startSession_part000_def granted_part000_def initial_phone_def onopen_def Let_def)

lemma failed_start_app:
  "startSession display_denied initial_app =
     initial_app\<lparr>error :=
         Some ''Permission denied. Ensure your browser allows screen capture for this site.'',
       audioContextInRef := Some \<lparr>ctx_sampleRate = 16000, ctx_closed = False\<rparr>,
       audioContextOutRef := Some \<lparr>ctx_sampleRate = 24000, ctx_closed = False\<rparr>,
       streamRef := Some [AudioTrack]\<rparr>"
  by (simp add: startSession_def display_denied_def granted_def initial_app_def start_catch_def
      message_or_def Let_def)

lemma failed_start_phone:
  "startSession_part000 channel_refused_part000 initial_phone =
     initial_phone\<lparr>error := Some ''refused'',
       audioContextRef := Some \<lparr>ctx_sampleRate = 44100, ctx_closed = False\<rparr>,
       mediaStreamRef := Some [AudioTrack, VideoTrack], mediaRecorderRef := Some Recording,
       recordingMixerRef := Some ()\<rparr>"
  by (simp add: startSession_part000_def channel_refused_part000_def granted_part000_def
      initial_phone_def start_catch_part000_def message_or_def Let_def)

lemma playing_app_eq:
  "playing_app =
     (startSession granted initial_app)
       \<lparr>effects := [SourceStart 0 3], nextStartTimeRef := 3 + 1 / 24000,
        audioSourcesRef :=
          [\<lparr>node_id = 0,
            node_buffer = \<lparr>buf_sampleRate = 24000, buf_length = 1, buf_channelData = [[0]]\<rparr>,
            node_start = 3, node_to_mixer = False\<rparr>],
        nodeCount := 1\<rparr>"
  unfolding playing_app_def started_app
  by (simp add: onmessage_def play_and_interrupt_def schedule_audio_def decode_inbound_silence
      duration_def initial_app_def at_clock_def audio_message_def empty_message_def
      inlineData_def accumulate_transcription_def Let_def)


subsection \<open>Transcript history\<close>

lemma slice_last_length: "length (slice_last n xs) \<le> n"
  by (simp add: slice_last_def)

lemma slice_last_short: "length xs \<le> n \<Longrightarrow> slice_last n xs = xs"
  by (simp add: slice_last_def)

lemma play_and_interrupt_transcripts:
  fixes s :: app
  shows "transcriptions (snd (play_and_interrupt pf m c mx s)) = transcriptions s"
    and "currentInputTranscriptionRef (snd (play_and_interrupt pf m c mx s)) = currentInputTranscriptionRef s"
    and "currentOutputTranscriptionRef (snd (play_and_interrupt pf m c mx s)) = currentOutputTranscriptionRef s"
  by (simp_all add: play_and_interrupt_def schedule_audio_def on_interrupted_def
      stop_audio_sources_def Let_def split: option.splits sum.splits)

lemma onmessage_transcriptions:
  "transcriptions (snd (onmessage pf m s)) =
     (if turnComplete m then transcriptions (flush_turn (dateNow pf) (accumulate_transcription m s))
      else transcriptions s)"
  by (simp add: onmessage_def Let_def play_and_interrupt_transcripts accumulate_transcription_def
      split: option.splits)

lemma flush_turn_bounded:
  "length (transcriptions s) \<le> 50 \<Longrightarrow> length (transcriptions (flush_turn now s)) \<le> 50"
  by (simp add: flush_turn_def Let_def slice_last_length)

lemma accumulate_transcriptions [simp]:
  "transcriptions (accumulate_transcription m s) = transcriptions s"
  by (simp add: accumulate_transcription_def split: option.splits)

lemma onmessage_bounded:
  "length (transcriptions s) \<le> 50 \<Longrightarrow> length (transcriptions (snd (onmessage pf m s))) \<le> 50"
  by (simp add: onmessage_transcriptions flush_turn_bounded)

lemma deliver_bounded:
  "length (transcriptions s) \<le> 50 \<Longrightarrow> length (transcriptions (deliver evs s)) \<le> 50"
proof (induction evs arbitrary: s)
  case Nil
  then show ?case by simp
next
  case (Cons ev evs)
  obtain pf m where ev: "ev = (pf, m)" by (cases ev)
  show ?case
    unfolding ev deliver.simps
    by (rule Cons.IH) (rule onmessage_bounded [OF Cons.prems])
qed

text \<open>
  C10. The visible transcription list never exceeds 50 entries, whatever events arrive.
  A message with \<open>turnComplete\<close> appends the accumulated user fragment, if it is not
  empty, then the accumulated model fragment, if it is not empty, keeps the 50 most
  recent entries and empties both accumulators; when both fragments are empty the list
  is unchanged. A message without \<open>turnComplete\<close> leaves the list as it is.
\<close>

theorem C10_transcript_history:
  "length (transcriptions (deliver evs initial_app)) \<le> 50
   \<and> (length (transcriptions s) \<le> 50 \<longrightarrow> length (transcriptions (deliver evs s)) \<le> 50)
   \<and> (turnComplete m \<longrightarrow>
        (let uTrans = currentInputTranscriptionRef (accumulate_transcription m s);
             mTrans = currentOutputTranscriptionRef (accumulate_transcription m s);
             appended = transcriptions s
               @ (if uTrans \<noteq> [] then
                    [\<lparr>entry_role = User, entry_text = uTrans, entry_timestamp = dateNow pf\<rparr>]
                  else [])
               @ (if mTrans \<noteq> [] then
                    [\<lparr>entry_role = Model, entry_text = mTrans, entry_timestamp = dateNow pf\<rparr>]
                  else []);
             s' = snd (onmessage pf m s)
         in transcriptions s' =
              (if uTrans = [] \<and> mTrans = [] then transcriptions s
               else drop (length appended - 50) appended)
            \<and> currentInputTranscriptionRef s' = []
            \<and> currentOutputTranscriptionRef s' = []))
   \<and> (\<not> turnComplete m \<longrightarrow>
        transcriptions (snd (onmessage pf m s)) = transcriptions s)"
proof -
  have a: "length (transcriptions (deliver evs initial_app)) \<le> 50"
    by (rule deliver_bounded) (simp add: initial_app_def)
  have b: "length (transcriptions s) \<le> 50 \<longrightarrow> length (transcriptions (deliver evs s)) \<le> 50"
    by (simp add: deliver_bounded)
  have c: "turnComplete m \<Longrightarrow>
      currentInputTranscriptionRef (snd (onmessage pf m s)) = []
      \<and> currentOutputTranscriptionRef (snd (onmessage pf m s)) = []"
    by (simp add: onmessage_def Let_def play_and_interrupt_transcripts flush_turn_def)
  have d: "turnComplete m \<Longrightarrow> transcriptions (snd (onmessage pf m s)) =
      transcriptions (flush_turn (dateNow pf) (accumulate_transcription m s))"
    by (simp add: onmessage_transcriptions)
  show ?thesis
    using a b c d
    by (simp add: onmessage_transcriptions Let_def)
      (auto simp: flush_turn_def Let_def slice_last_def)
qed

theorem C10_witness:
  "length (transcriptions initial_app) \<le> 50
   \<and> length (transcriptions (deliver [(at_clock 0, user_turn ''hi'')] initial_app)) \<le> 50
   \<and> turnComplete (user_turn ''hi'')
   \<and> transcriptions (snd (onmessage (at_clock 0) (user_turn ''hi'') initial_app)) =
        [\<lparr>entry_role = User, entry_text = ''hi'', entry_timestamp = 0\<rparr>]"
  using C10_transcript_history
    [of "[(at_clock 0, user_turn ''hi'')]" initial_app "user_turn ''hi''" "at_clock 0"]
  by (simp add: user_turn_def empty_message_def at_clock_def initial_app_def
      accumulate_transcription_def js_append_def Let_def)

subsection \<open>Interruption\<close>

lemma onended_removes:
  "node_id v \<notin> node_id ` set (audioSourcesRef (onended (node_id v) s))"
  "set (audioSourcesRef (onended ident s)) \<subseteq> set (audioSourcesRef s)"
  "nextStartTimeRef (onended ident s) = nextStartTimeRef s"
  "nodeCount (onended ident s) = nodeCount s"
  "effects (onended ident s) = effects s"
  by (auto simp: onended_def)

lemma stop_each_map:
  "stop_each raises vs =
     map (\<lambda>v. if raises (node_id v) then SourceStopRaised (node_id v) else SourceStop (node_id v)) vs"
  by (induction vs) (simp_all add: node_stop_def)




lemma play_and_interrupt_read_raises:
  "inlineData m = Inl e \<Longrightarrow> play_and_interrupt pf m c mx s = (Threw e, s)"
  by (simp add: play_and_interrupt_def)

lemma inlineData_raises_iff: "(\<exists>e. inlineData m = Inl e) \<longleftrightarrow> modelTurn m = Some None"
  by (auto simp: inlineData_def split: option.splits list.splits)



subsection \<open>Malformed inbound audio\<close>

lemma malformed_raises: "malformed p \<Longrightarrow> \<exists>e. decode_inbound p = Inl e"
  by (auto simp: malformed_def decode_inbound_def decodeAudioData_def split: sum.splits)

lemma schedule_audio_malformed:
  assumes "malformed p"
  shows "\<exists>e. schedule_audio now mx p s =
           (Threw e, s\<lparr>nextStartTimeRef := max (nextStartTimeRef s) now\<rparr>)"
proof -
  from malformed_raises [OF assms] obtain e where "decode_inbound p = Inl e" ..
  then show ?thesis by (simp add: schedule_audio_def)
qed

lemma play_and_interrupt_malformed:
  assumes "inlineData m = Inr (Some p)" "p \<noteq> []" "malformed p"
  shows "\<exists>e. play_and_interrupt pf m True mx s =
           (Threw e, s\<lparr>nextStartTimeRef := max (nextStartTimeRef s) (currentTime pf)\<rparr>)"
proof -
  from schedule_audio_malformed [OF assms(3)]
  obtain e where "schedule_audio (currentTime pf) mx p s =
      (Threw e, s\<lparr>nextStartTimeRef := max (nextStartTimeRef s) (currentTime pf)\<rparr>)"
    by blast
  then show ?thesis using assms(1,2) by (simp add: play_and_interrupt_def)
qed

lemma transcript_steps_keep_scheduler:
  "audioSourcesRef (accumulate_transcription m a) = audioSourcesRef a"
  "audioSourcesRef (flush_turn t a) = audioSourcesRef a"
  "effects (accumulate_transcription m a) = effects a"
  "effects (flush_turn t a) = effects a"
  "nodeCount (accumulate_transcription m a) = nodeCount a"
  "nodeCount (flush_turn t a) = nodeCount a"
  "status (accumulate_transcription m a) = status a"
  "status (flush_turn t a) = status a"
  "nextStartTimeRef (accumulate_transcription m a) = nextStartTimeRef a"
  "nextStartTimeRef (flush_turn t a) = nextStartTimeRef a"
  "audioContextOutRef (accumulate_transcription m a) = audioContextOutRef a"
  "audioContextOutRef (flush_turn t a) = audioContextOutRef a"
  by (simp_all add: accumulate_transcription_def flush_turn_def Let_def split: option.splits)

text \<open>
  C9. A malformed audio payload delivered while the output context is held,
  as it is in a connected session: the decoding raises and the exception leaves the
  callback, which drops the chunk. No source node is created or started, the in-flight
  set is unchanged, the watermark is raised to the device clock and not advanced by
  any duration, and the status is unchanged, so a connected session stays connected.
\<close>

lemma malformed_nonempty: "malformed p \<Longrightarrow> p \<noteq> []"
  by (auto simp: malformed_def decode_def)

theorem C9_malformed_chunk_dropped:
  assumes payload: "inlineData m = Inr (Some base64Audio)" and bad: "malformed base64Audio"
  shows "(audioContextOutRef a \<noteq> None \<longrightarrow>
           (\<exists>e. fst (onmessage pf m a) = Threw e)
           \<and> audioSourcesRef (snd (onmessage pf m a)) = audioSourcesRef a
           \<and> effects (snd (onmessage pf m a)) = effects a
           \<and> nodeCount (snd (onmessage pf m a)) = nodeCount a
           \<and> nextStartTimeRef (snd (onmessage pf m a)) = max (nextStartTimeRef a) (currentTime pf)
           \<and> status (snd (onmessage pf m a)) = status a)
       \<and> (audioContextRef p \<noteq> None \<longrightarrow>
           (\<exists>e. onmessage_part000 pf m p =
              (Threw e, p\<lparr>nextStartTimeRef := max (nextStartTimeRef p) (currentTime pf)\<rparr>)))"
proof (intro conjI impI)
  note assms = payload malformed_nonempty [OF bad] bad
  assume ctx: "audioContextRef p \<noteq> None"
  show "\<exists>e. onmessage_part000 pf m p =
      (Threw e, p\<lparr>nextStartTimeRef := max (nextStartTimeRef p) (currentTime pf)\<rparr>)"
    using play_and_interrupt_malformed [OF assms] ctx by (simp add: onmessage_part000_def)
next
  note assms = payload malformed_nonempty [OF bad] bad
  assume ctx: "audioContextOutRef a \<noteq> None"
  define a2 where
    "a2 = (if turnComplete m then flush_turn (dateNow pf) (accumulate_transcription m a)
           else accumulate_transcription m a)"
  have run: "onmessage pf m a = play_and_interrupt pf m True False a2"
    using ctx by (simp add: onmessage_def a2_def Let_def transcript_steps_keep_scheduler)
  from play_and_interrupt_malformed [OF assms, of pf False a2]
  obtain e where e: "play_and_interrupt pf m True False a2 =
      (Threw e, a2\<lparr>nextStartTimeRef := max (nextStartTimeRef a2) (currentTime pf)\<rparr>)"
    by blast
  have res: "onmessage pf m a =
      (Threw e, a2\<lparr>nextStartTimeRef := max (nextStartTimeRef a2) (currentTime pf)\<rparr>)"
    unfolding run e ..
  have a2: "audioSourcesRef a2 = audioSourcesRef a" "effects a2 = effects a"
    "nodeCount a2 = nodeCount a" "nextStartTimeRef a2 = nextStartTimeRef a"
    "status a2 = status a"
    by (simp_all add: a2_def transcript_steps_keep_scheduler)
  show "\<exists>e. fst (onmessage pf m a) = Threw e"
    unfolding res by simp
  show "audioSourcesRef (snd (onmessage pf m a)) = audioSourcesRef a"
    unfolding res by (simp add: a2)
  show "effects (snd (onmessage pf m a)) = effects a"
    unfolding res by (simp add: a2)
  show "nodeCount (snd (onmessage pf m a)) = nodeCount a"
    unfolding res by (simp add: a2)
  show "nextStartTimeRef (snd (onmessage pf m a)) = max (nextStartTimeRef a) (currentTime pf)"
    unfolding res by (simp add: a2)
  show "status (snd (onmessage pf m a)) = status a"
    unfolding res by (simp add: a2)
qed

lemma three_bytes_malformed: "malformed ''AAAA''"
  by (simp add: malformed_def decode_three_zero_bytes)

theorem C9_witness:
  "inlineData (audio_message ''AAAA'') = Inr (Some ''AAAA'') \<and> malformed ''AAAA''
   \<and> audioContextOutRef (startSession granted initial_app) \<noteq> None
   \<and> audioContextRef (startSession_part000 granted_part000 initial_phone) \<noteq> None
   \<and> status (snd (onmessage (at_clock 3) (audio_message ''AAAA'') (startSession granted initial_app)))
       = Connected
   \<and> audioSourcesRef
        (snd (onmessage (at_clock 3) (audio_message ''AAAA'') (startSession granted initial_app)))
       = []
   \<and> (\<exists>e. fst (onmessage_part000 (at_clock 3) (audio_message ''AAAA'')
                (startSession_part000 granted_part000 initial_phone)) = Threw e)"
proof -
  have h1: "inlineData (audio_message ''AAAA'') = Inr (Some ''AAAA'')"
    by (rule inlineData_examples)
  have c1: "audioContextOutRef (startSession granted initial_app) \<noteq> None"
    by (simp add: started_app)
  have c2: "audioContextRef (startSession_part000 granted_part000 initial_phone) \<noteq> None"
    by (simp add: started_phone)
  have st: "status (startSession granted initial_app) = Connected"
    "audioSourcesRef (startSession granted initial_app) = []"
    unfolding started_app by (simp_all add: initial_app_def)
  show ?thesis
    using C9_malformed_chunk_dropped [OF h1 three_bytes_malformed,
        of "startSession granted initial_app" "at_clock 3"
           "startSession_part000 granted_part000 initial_phone"]
      h1 c1 c2 st three_bytes_malformed
    by auto
qed

subsection \<open>Session start\<close>

lemma start_catch_fields:
  "status (start_catch e a) = Disconnected" "error (start_catch e a) \<noteq> None"
  "\<not> isScreenSharing (start_catch e a)"
  "status (start_catch_part000 e p) = Disconnected" "error (start_catch_part000 e p) \<noteq> None"
  by (simp_all add: start_catch_def start_catch_part000_def)

lemma startSession_fails:
  "acquisition_fails env \<Longrightarrow> \<exists>e s. startSession env a = start_catch e s"
  by (auto simp: acquisition_fails_def startSession_def Let_def split: option.splits sum.splits)

lemma startSession_part000_fails:
  "acquisition_fails_part000 env \<Longrightarrow> \<exists>e s. startSession_part000 env p = start_catch_part000 e s"
  by (auto simp: acquisition_fails_part000_def startSession_part000_def Let_def
      split: option.splits sum.splits mixing.splits)

text \<open>
  C1, as the code has it. When an acquisition of \<^verbatim>\<open>startSession\<close> fails, the
  \<^verbatim>\<open>catch\<close> block ends the transition with the status disconnected, the error
  message set and, in \<^verbatim>\<open>src/App.tsx\<close>, the screen-sharing flag off; the status
  \<open>Error\<close> is never assigned. When no acquisition fails the session ends connected
  and holds the channel handle.
\<close>

theorem C1_failed_start_ends_disconnected:
  "(acquisition_fails env \<longrightarrow>
      status (startSession env a) = Disconnected
      \<and> error (startSession env a) \<noteq> None
      \<and> \<not> isScreenSharing (startSession env a))
   \<and> (\<not> acquisition_fails env \<longrightarrow>
      status (startSession env a) = Connected \<and> sessionRef (startSession env a) \<noteq> None)
   \<and> (acquisition_fails_part000 env' \<longrightarrow>
      status (startSession_part000 env' p) = Disconnected
      \<and> error (startSession_part000 env' p) \<noteq> None)
   \<and> (\<not> acquisition_fails_part000 env' \<longrightarrow>
      status (startSession_part000 env' p) = Connected
      \<and> sessionRef (startSession_part000 env' p) \<noteq> None)"
proof -
  have app_fail: "acquisition_fails env \<Longrightarrow>
      status (startSession env a) = Disconnected
      \<and> error (startSession env a) \<noteq> None
      \<and> \<not> isScreenSharing (startSession env a)"
    using startSession_fails [of env a] start_catch_fields by metis
  have app_ok: "\<not> acquisition_fails env \<Longrightarrow>
      status (startSession env a) = Connected \<and> sessionRef (startSession env a) \<noteq> None"
    by (auto simp: acquisition_fails_def startSession_def Let_def onopen_def
        split: option.splits sum.splits)
  have phone_fail: "acquisition_fails_part000 env' \<Longrightarrow>
      status (startSession_part000 env' p) = Disconnected
      \<and> error (startSession_part000 env' p) \<noteq> None"
    using startSession_part000_fails [of env' p] start_catch_fields by metis
  have phone_ok: "\<not> acquisition_fails_part000 env' \<Longrightarrow>
      status (startSession_part000 env' p) = Connected
      \<and> sessionRef (startSession_part000 env' p) \<noteq> None"
    by (auto simp: acquisition_fails_part000_def startSession_part000_def Let_def onopen_def
        split: option.splits sum.splits mixing.splits)
  show ?thesis
    using app_fail app_ok phone_fail phone_ok by blast
qed

theorem C1_witness:
  "acquisition_fails display_denied
   \<and> status (startSession display_denied initial_app) = Disconnected
   \<and> \<not> acquisition_fails granted
   \<and> status (startSession granted initial_app) = Connected
   \<and> acquisition_fails_part000 channel_refused_part000
   \<and> status (startSession_part000 channel_refused_part000 initial_phone) = Disconnected
   \<and> \<not> acquisition_fails_part000 granted_part000
   \<and> status (startSession_part000 granted_part000 initial_phone) = Connected"
proof -
  have f: "acquisition_fails display_denied" "\<not> acquisition_fails granted"
    "acquisition_fails_part000 channel_refused_part000"
    "\<not> acquisition_fails_part000 granted_part000"
    by (simp_all add: acquisition_fails_def acquisition_fails_part000_def display_denied_def
        granted_def channel_refused_part000_def granted_part000_def)
  show ?thesis
    using f C1_failed_start_ends_disconnected [of display_denied initial_app channel_refused_part000 initial_phone]
      C1_failed_start_ends_disconnected [of granted initial_app granted_part000 initial_phone]
    by blast
qed

text \<open>
  C1 as stated fails: the microphone is granted and the screen capture refused. The
  status ends disconnected, not in the error state, and the microphone stream and
  both audio contexts are still held, no platform call having released them.
\<close>

theorem C1_counterexample:
  "acquisition_fails display_denied
   \<and> status (startSession display_denied initial_app) \<noteq> Error
   \<and> streamRef (startSession display_denied initial_app) = Some [AudioTrack]
   \<and> audioContextOutRef (startSession display_denied initial_app)
       = Some \<lparr>ctx_sampleRate = 24000, ctx_closed = False\<rparr>
   \<and> effects (startSession display_denied initial_app) = []"
  unfolding failed_start_app
  by (simp add: acquisition_fails_def display_denied_def granted_def initial_app_def)

subsection \<open>Teardown\<close>

lemma clear_frame_interval_eq:
  "clear_frame_interval s =
     s\<lparr>effects := effects s @ (case frameIntervalRef s of
                       None \<Rightarrow> [] | Some n \<Rightarrow> if n = 0 then [] else [ClearInterval n]),
       frameIntervalRef := (if frameIntervalRef s = Some 0 then Some 0 else None)\<rparr>"
  by (simp add: clear_frame_interval_def split: option.splits)

lemma drop_session_eq:
  "drop_session s =
     s\<lparr>effects := effects s @ (case sessionRef s of None \<Rightarrow> [] | Some h \<Rightarrow> [SessionDropped]),
       sessionRef := None\<rparr>"
  by (simp add: drop_session_def split: option.splits)

lemma stopSession_eq:
  "stopSession raises a =
     a\<lparr>effects := effects a
         @ (case frameIntervalRef a of
              None \<Rightarrow> [] | Some n \<Rightarrow> if n = 0 then [] else [ClearInterval n])
         @ (case sessionRef a of None \<Rightarrow> [] | Some h \<Rightarrow> [SessionDropped])
         @ (case streamRef a of None \<Rightarrow> [] | Some ms \<Rightarrow> map (TrackStop StreamRef) ms)
         @ (case screenStreamRef a of None \<Rightarrow> [] | Some ms \<Rightarrow> map (TrackStop ScreenStreamRef) ms)
         @ stop_each raises (audioSourcesRef a)
         @ (case audioContextInRef a of None \<Rightarrow> [] | Some c \<Rightarrow> [ContextClose AudioContextInRef])
         @ (case audioContextOutRef a of None \<Rightarrow> [] | Some c \<Rightarrow> [ContextClose AudioContextOutRef]),
       frameIntervalRef := (if frameIntervalRef a = Some 0 then Some 0 else None),
       sessionRef := None, streamRef := None, screenStreamRef := None,
       audioSourcesRef := [],
       audioContextInRef := map_option close_context (audioContextInRef a),
       audioContextOutRef := map_option close_context (audioContextOutRef a),
       status := Disconnected, isScreenSharing := False\<rparr>"
  unfolding stopSession_def Let_def clear_frame_interval_eq drop_session_eq stop_audio_sources_def
  by (cases "streamRef a"; cases "screenStreamRef a"; cases "audioContextInRef a";
      cases "audioContextOutRef a"; simp)

lemma stopSession_part000_eq:
  "stopSession_part000 raises p =
     p\<lparr>effects := effects p
         @ (case mediaRecorderRef p of
              None \<Rightarrow> [] | Some st \<Rightarrow> if st \<noteq> Inactive then [RecorderStop] else [])
         @ (case frameIntervalRef p of
              None \<Rightarrow> [] | Some n \<Rightarrow> if n = 0 then [] else [ClearInterval n])
         @ (case sessionRef p of None \<Rightarrow> [] | Some h \<Rightarrow> [SessionDropped])
         @ (case mediaStreamRef p of None \<Rightarrow> [] | Some ms \<Rightarrow> map (TrackStop MediaStreamRef) ms)
         @ stop_each raises (audioSourcesRef p)
         @ (case audioContextRef p of None \<Rightarrow> [] | Some c \<Rightarrow> [ContextClose AudioContextRef]),
       mediaRecorderRef := map_option (\<lambda>st. Inactive) (mediaRecorderRef p),
       frameIntervalRef := (if frameIntervalRef p = Some 0 then Some 0 else None),
       sessionRef := None, mediaStreamRef := None, audioSourcesRef := [],
       audioContextRef := None, status := Disconnected\<rparr>"
  unfolding stopSession_part000_def Let_def clear_frame_interval_eq drop_session_eq
    stop_audio_sources_def
  by (cases "mediaRecorderRef p"; cases "mediaStreamRef p"; cases "audioContextRef p"; simp)















lemma sorted_map_constant: "\<forall>x\<in>set xs. f x = (k::nat) \<Longrightarrow> sorted (map f xs)"
  by (induction xs) auto

lemma ranked_concat_member:
  "list_all2 (\<lambda>seg r. \<forall>x\<in>set seg. f x = r) segs rs \<Longrightarrow> y \<in> set (concat segs) \<Longrightarrow>
   f y \<in> set rs"
  by (induction segs rs rule: list_all2_induct) auto

lemma sorted_ranked_concat:
  fixes f :: "'a \<Rightarrow> nat"
  assumes "list_all2 (\<lambda>seg r. \<forall>x\<in>set seg. f x = r) segs rs" and "sorted rs"
  shows "sorted (map f (concat segs))"
  using assms
proof (induction segs rs rule: list_all2_induct)
  case Nil
  show ?case by simp
next
  case (Cons seg segs r rs)
  have tail: "sorted (map f (concat segs))"
    using Cons by simp
  have head: "sorted (map f seg)"
    using Cons.hyps(1) by (rule sorted_map_constant)
  have "f x \<le> f y" if "x \<in> set seg" "y \<in> set (concat segs)" for x y
  proof -
    have "f y \<in> set rs" using ranked_concat_member [OF Cons.hyps(2) that(2)] .
    moreover have "f x = r" using Cons.hyps(1) that(1) by simp
    ultimately show ?thesis using Cons.prems by auto
  qed
  then show ?case
    using head tail by (auto simp: sorted_append)
qed


lemma teardown_step_stop_each: "x \<in> set (stop_each raises vs) \<Longrightarrow> teardown_step x = 4"
  by (auto simp: stop_each_map)

text \<open>
  C8, as the code has it. \<^verbatim>\<open>stopSession\<close> of \<^verbatim>\<open>src/App.tsx\<close> makes these calls, in
  this order, whatever the state and whichever \<^verbatim>\<open>stop()\<close> calls raise: it clears the
  frame timer, drops the channel handle, stops the tracks of the microphone stream and
  of the screen stream, stops every in-flight voice (a call that raises is swallowed
  and the remaining voices are still stopped), and closes the two audio contexts.
  \<^verbatim>\<open>stopSession\<close> of \<^verbatim>\<open>part_000\<close> stops the recorder first, then follows the same
  order with its one stream and one context. The capture devices are released before
  the voices are stopped, and no call of its own halts the capture encoder. Both
  functions end with the status disconnected.
\<close>

theorem C8_teardown_order:
  "teardown_trace raises a =
     (case frameIntervalRef a of
        None \<Rightarrow> [] | Some n \<Rightarrow> if n = 0 then [] else [ClearInterval n])
     @ (case sessionRef a of None \<Rightarrow> [] | Some h \<Rightarrow> [SessionDropped])
     @ (case streamRef a of None \<Rightarrow> [] | Some ms \<Rightarrow> map (TrackStop StreamRef) ms)
     @ (case screenStreamRef a of None \<Rightarrow> [] | Some ms \<Rightarrow> map (TrackStop ScreenStreamRef) ms)
     @ map (\<lambda>v. if raises (node_id v) then SourceStopRaised (node_id v)
                else SourceStop (node_id v)) (audioSourcesRef a)
     @ (case audioContextInRef a of None \<Rightarrow> [] | Some c \<Rightarrow> [ContextClose AudioContextInRef])
     @ (case audioContextOutRef a of None \<Rightarrow> [] | Some c \<Rightarrow> [ContextClose AudioContextOutRef])
   \<and> teardown_trace_part000 raises p =
     (case mediaRecorderRef p of
        None \<Rightarrow> [] | Some st \<Rightarrow> if st \<noteq> Inactive then [RecorderStop] else [])
     @ (case frameIntervalRef p of
          None \<Rightarrow> [] | Some n \<Rightarrow> if n = 0 then [] else [ClearInterval n])
     @ (case sessionRef p of None \<Rightarrow> [] | Some h \<Rightarrow> [SessionDropped])
     @ (case mediaStreamRef p of None \<Rightarrow> [] | Some ms \<Rightarrow> map (TrackStop MediaStreamRef) ms)
     @ map (\<lambda>v. if raises (node_id v) then SourceStopRaised (node_id v)
                else SourceStop (node_id v)) (audioSourcesRef p)
     @ (case audioContextRef p of None \<Rightarrow> [] | Some c \<Rightarrow> [ContextClose AudioContextRef])
   \<and> sorted (map teardown_step (teardown_trace raises a))
   \<and> sorted (map teardown_step (teardown_trace_part000 raises p))
   \<and> status (stopSession raises a) = Disconnected
   \<and> status (stopSession_part000 raises p) = Disconnected"
proof -
  have ta: "teardown_trace raises a =
     (case frameIntervalRef a of
        None \<Rightarrow> [] | Some n \<Rightarrow> if n = 0 then [] else [ClearInterval n])
     @ (case sessionRef a of None \<Rightarrow> [] | Some h \<Rightarrow> [SessionDropped])
     @ (case streamRef a of None \<Rightarrow> [] | Some ms \<Rightarrow> map (TrackStop StreamRef) ms)
     @ (case screenStreamRef a of None \<Rightarrow> [] | Some ms \<Rightarrow> map (TrackStop ScreenStreamRef) ms)
     @ stop_each raises (audioSourcesRef a)
     @ (case audioContextInRef a of None \<Rightarrow> [] | Some c \<Rightarrow> [ContextClose AudioContextInRef])
     @ (case audioContextOutRef a of None \<Rightarrow> [] | Some c \<Rightarrow> [ContextClose AudioContextOutRef])"
    unfolding teardown_trace_def stopSession_eq by simp
  have tp: "teardown_trace_part000 raises p =
     (case mediaRecorderRef p of
        None \<Rightarrow> [] | Some st \<Rightarrow> if st \<noteq> Inactive then [RecorderStop] else [])
     @ (case frameIntervalRef p of
          None \<Rightarrow> [] | Some n \<Rightarrow> if n = 0 then [] else [ClearInterval n])
     @ (case sessionRef p of None \<Rightarrow> [] | Some h \<Rightarrow> [SessionDropped])
     @ (case mediaStreamRef p of None \<Rightarrow> [] | Some ms \<Rightarrow> map (TrackStop MediaStreamRef) ms)
     @ stop_each raises (audioSourcesRef p)
     @ (case audioContextRef p of None \<Rightarrow> [] | Some c \<Rightarrow> [ContextClose AudioContextRef])"
    unfolding teardown_trace_part000_def stopSession_part000_eq by simp
  have sa: "sorted (map teardown_step (teardown_trace raises a))"
  proof -
    have "sorted (map teardown_step (concat
        [case frameIntervalRef a of
           None \<Rightarrow> [] | Some n \<Rightarrow> if n = 0 then [] else [ClearInterval n],
         case sessionRef a of None \<Rightarrow> [] | Some h \<Rightarrow> [SessionDropped],
         case streamRef a of None \<Rightarrow> [] | Some ms \<Rightarrow> map (TrackStop StreamRef) ms,
         case screenStreamRef a of None \<Rightarrow> [] | Some ms \<Rightarrow> map (TrackStop ScreenStreamRef) ms,
         stop_each raises (audioSourcesRef a),
         case audioContextInRef a of None \<Rightarrow> [] | Some c \<Rightarrow> [ContextClose AudioContextInRef],
         case audioContextOutRef a of None \<Rightarrow> [] | Some c \<Rightarrow> [ContextClose AudioContextOutRef]]))"
      by (rule sorted_ranked_concat [where rs = "[1, 2, 3, 3, 4, 5, 5]"])
        (auto simp: teardown_step_stop_each split: option.splits if_splits)
    then show ?thesis unfolding ta by simp
  qed
  have sp: "sorted (map teardown_step (teardown_trace_part000 raises p))"
  proof -
    have "sorted (map teardown_step (concat
        [case mediaRecorderRef p of
           None \<Rightarrow> [] | Some st \<Rightarrow> if st \<noteq> Inactive then [RecorderStop] else [],
         case frameIntervalRef p of
           None \<Rightarrow> [] | Some n \<Rightarrow> if n = 0 then [] else [ClearInterval n],
         case sessionRef p of None \<Rightarrow> [] | Some h \<Rightarrow> [SessionDropped],
         case mediaStreamRef p of None \<Rightarrow> [] | Some ms \<Rightarrow> map (TrackStop MediaStreamRef) ms,
         stop_each raises (audioSourcesRef p),
         case audioContextRef p of None \<Rightarrow> [] | Some c \<Rightarrow> [ContextClose AudioContextRef]]))"
      by (rule sorted_ranked_concat [where rs = "[0, 1, 2, 3, 4, 5]"])
        (auto simp: teardown_step_stop_each split: option.splits if_splits)
    then show ?thesis unfolding tp by simp
  qed
  have st: "status (stopSession raises a) = Disconnected"
    "status (stopSession_part000 raises p) = Disconnected"
    unfolding stopSession_eq stopSession_part000_eq by simp_all
  show ?thesis
    using ta tp sa sp st by (simp add: stop_each_map)
qed

text \<open>
  C8 as stated fails: in a connected session with one voice in flight the tracks of
  both streams are stopped before the voice, while the stated order has the voices
  stopped before the capture devices are released.
\<close>

theorem C8_counterexample:
  "teardown_trace (\<lambda>n. False) playing_app =
     [ClearInterval 7, SessionDropped, TrackStop StreamRef AudioTrack,
      TrackStop ScreenStreamRef VideoTrack, SourceStop 0,
      ContextClose AudioContextInRef, ContextClose AudioContextOutRef]
   \<and> \<not> sorted (map claimed_step (teardown_trace (\<lambda>n. False) playing_app))"
proof -
  have "teardown_trace (\<lambda>n. False) playing_app =
     [ClearInterval 7, SessionDropped, TrackStop StreamRef AudioTrack,
      TrackStop ScreenStreamRef VideoTrack, SourceStop 0,
      ContextClose AudioContextInRef, ContextClose AudioContextOutRef]"
    unfolding teardown_trace_def stopSession_eq
    unfolding playing_app_eq started_app
    by (simp add: initial_app_def node_stop_def)
  then show ?thesis by simp
qed

subsection \<open>Callbacks after teardown\<close>

lemma stopped_app:
  "stopSession raises (startSession granted initial_app) =
     initial_app\<lparr>effects := [ClearInterval 7, SessionDropped, TrackStop StreamRef AudioTrack,
         TrackStop ScreenStreamRef VideoTrack, ContextClose AudioContextInRef,
         ContextClose AudioContextOutRef],
       audioContextInRef := Some \<lparr>ctx_sampleRate = 16000, ctx_closed = True\<rparr>,
       audioContextOutRef := Some \<lparr>ctx_sampleRate = 24000, ctx_closed = True\<rparr>\<rparr>"
  unfolding started_app
  by (simp add: stopSession_def initial_app_def clear_frame_interval_def drop_session_def
      stop_audio_sources_def close_context_def Let_def)

text \<open>
  C5, evaluated on \<^verbatim>\<open>src/App.tsx\<close>: a session is started, then stopped, and an
  inbound audio chunk is delivered. \<^verbatim>\<open>stopSession\<close> has closed the output context
  and left its ref set, so the test of \<^verbatim>\<open>onmessage\<close> passes: the callback runs to its
  end, creates a voice that starts at the device time 3 and adds it to the in-flight
  set, and advances the watermark.
\<close>

theorem C5_stray_audio_after_stop:
  "status (stopSession (\<lambda>n. False) (startSession granted initial_app)) = Disconnected
   \<and> audioSourcesRef (stopSession (\<lambda>n. False) (startSession granted initial_app)) = []
   \<and> fst (onmessage (at_clock 3) (audio_message ''AAA='')
            (stopSession (\<lambda>n. False) (startSession granted initial_app))) = Completed
   \<and> map node_start
        (audioSourcesRef
          (snd (onmessage (at_clock 3) (audio_message ''AAA='')
                 (stopSession (\<lambda>n. False) (startSession granted initial_app))))) = [3]
   \<and> nextStartTimeRef
        (snd (onmessage (at_clock 3) (audio_message ''AAA='')
               (stopSession (\<lambda>n. False) (startSession granted initial_app)))) = 3 + 1 / 24000"
  unfolding stopped_app
  by (simp add: onmessage_def play_and_interrupt_def schedule_audio_def decode_inbound_silence
      duration_def initial_app_def at_clock_def audio_message_def empty_message_def
      inlineData_def accumulate_transcription_def Let_def)

text \<open>\<^verbatim>\<open>part_000\<close> clears the ref of its context in \<^verbatim>\<open>stopSession\<close>, and there a
  stray audio message changes nothing.\<close>

lemma stopSession_part000_clears_context:
  "audioContextRef (stopSession_part000 raises p) = None"
  by (simp add: stopSession_part000_def Let_def split: option.splits)

lemma stray_audio_after_stop_part000:
  "\<not> interrupted m \<Longrightarrow>
   snd (onmessage_part000 pf m (stopSession_part000 raises p)) = stopSession_part000 raises p"
  "\<not> interrupted m \<Longrightarrow> inlineData m = Inr payload \<Longrightarrow>
   onmessage_part000 pf m (stopSession_part000 raises p) =
     (Completed, stopSession_part000 raises p)"
  by (simp_all add: onmessage_part000_def play_and_interrupt_def
      stopSession_part000_clears_context split: sum.splits option.splits)

subsection \<open>Capture encoding\<close>

lemma sint_ToInt16_Finite: "sint (ToInt16 (Finite v)) = wrap16 (truncate_toward_zero v)"
  by (simp add: ToInt16_def wrap16_def sint_sbintrunc' signed_take_bit_eq_take_bit_shift
      take_bit_eq_mod)

lemma truncate_between:
  assumes "lo \<le> 0" "0 \<le> hi" "real_of_int lo - 1 < v" "v < real_of_int hi + 1"
  shows "lo \<le> truncate_toward_zero v \<and> truncate_toward_zero v \<le> hi"
proof (cases "v < 0")
  case True
  then have eq: "truncate_toward_zero v = \<lceil>v\<rceil>" by (simp add: truncate_toward_zero_def)
  have up: "\<lceil>v\<rceil> \<le> 0" using True by (simp add: ceiling_le_iff)
  have "real_of_int (lo - 1) < v" using assms(3) by simp
  then have low: "lo - 1 < \<lceil>v\<rceil>" by (simp only: less_ceiling_iff)
  show ?thesis unfolding eq using up low assms(2) by linarith
next
  case False
  then have eq: "truncate_toward_zero v = \<lfloor>v\<rfloor>" by (simp add: truncate_toward_zero_def)
  have low: "0 \<le> \<lfloor>v\<rfloor>" using False by (simp add: le_floor_iff)
  have "v < real_of_int (hi + 1)" using assms(4) by simp
  then have up: "\<lfloor>v\<rfloor> < hi + 1" by (simp only: floor_less_iff)
  show ?thesis unfolding eq using up low assms(1) by linarith
qed

lemma truncate_above:
  assumes "0 \<le> lo" "real_of_int lo \<le> v" "v < real_of_int hi"
  shows "lo \<le> truncate_toward_zero v \<and> truncate_toward_zero v < hi"
proof -
  have "\<not> v < 0" using assms(1,2) by linarith
  then have eq: "truncate_toward_zero v = \<lfloor>v\<rfloor>" by (simp add: truncate_toward_zero_def)
  have low: "lo \<le> \<lfloor>v\<rfloor>" using assms(2) by (simp only: le_floor_iff)
  have up: "\<lfloor>v\<rfloor> < hi" using assms(3) by (simp only: floor_less_iff)
  show ?thesis unfolding eq using low up by simp
qed

lemma truncate_below:
  assumes "hi < 0" "real_of_int lo < v" "v \<le> real_of_int hi"
  shows "lo < truncate_toward_zero v \<and> truncate_toward_zero v \<le> hi"
proof -
  have "v < 0" using assms(1,3) by linarith
  then have eq: "truncate_toward_zero v = \<lceil>v\<rceil>" by (simp add: truncate_toward_zero_def)
  have low: "lo < \<lceil>v\<rceil>" using assms(2) by (simp only: less_ceiling_iff)
  have up: "\<lceil>v\<rceil> \<le> hi" using assms(3) by (simp only: ceiling_le_iff)
  show ?thesis unfolding eq using low up by simp
qed

lemma wrap16_inside: "- 32768 \<le> k \<Longrightarrow> k \<le> 32767 \<Longrightarrow> wrap16 k = k"
proof -
  assume "- 32768 \<le> k" "k \<le> 32767"
  then have "(k + 32768) mod 65536 = k + 32768"
    by (intro mod_pos_pos_trivial) simp_all
  then show ?thesis by (simp add: wrap16_def)
qed

lemma wrap16_above: "32768 \<le> k \<Longrightarrow> k < 98304 \<Longrightarrow> wrap16 k = k - 65536"
proof -
  assume k: "32768 \<le> k" "k < 98304"
  have "k + 32768 = k - 32768 + 65536" by simp
  then have "(k + 32768) mod 65536 = (k - 32768 + 65536) mod 65536" by (rule arg_cong)
  also have "\<dots> = (k - 32768) mod 65536" by (rule mod_add_self2)
  also have "\<dots> = k - 32768" using k by (intro mod_pos_pos_trivial) simp_all
  finally show ?thesis by (simp add: wrap16_def)
qed

lemma wrap16_below: "- 98304 < k \<Longrightarrow> k \<le> - 32769 \<Longrightarrow> wrap16 k = k + 65536"
proof -
  assume k: "- 98304 < k" "k \<le> - 32769"
  have "(k + 32768) mod 65536 = (k + 32768 + 65536) mod 65536" by (simp only: mod_add_self2)
  also have "\<dots> = k + 32768 + 65536" using k by (intro mod_pos_pos_trivial) simp_all
  finally show ?thesis by (simp add: wrap16_def)
qed

lemma sample_in_range:
  assumes "- 1 \<le> x" "x < 1"
  shows "sint (ToInt16 (scale_sample (Finite x))) = truncate_toward_zero (x * 32768)"
proof -
  have "- 32768 \<le> truncate_toward_zero (x * 32768) \<and> truncate_toward_zero (x * 32768) \<le> 32767"
    using assms by (intro truncate_between) simp_all
  then show ?thesis
    by (simp add: scale_sample_def sint_ToInt16_Finite wrap16_inside wrap16_above wrap16_below)
qed

lemma sample_above_range:
  assumes "1 \<le> x" "x < 3"
  shows "sint (ToInt16 (scale_sample (Finite x))) = truncate_toward_zero (x * 32768) - 65536"
proof -
  have "32768 \<le> truncate_toward_zero (x * 32768) \<and> truncate_toward_zero (x * 32768) < 98304"
    using assms by (intro truncate_above) simp_all
  then show ?thesis
    by (simp add: scale_sample_def sint_ToInt16_Finite wrap16_inside wrap16_above wrap16_below)
qed

lemma sample_below_range:
  assumes "- 3 < x" "x \<le> - 1 - 1 / 32768"
  shows "sint (ToInt16 (scale_sample (Finite x))) = truncate_toward_zero (x * 32768) + 65536"
proof -
  have "- 98304 < truncate_toward_zero (x * 32768) \<and> truncate_toward_zero (x * 32768) \<le> - 32769"
    using assms by (intro truncate_below) simp_all
  then show ?thesis
    by (simp add: scale_sample_def sint_ToInt16_Finite wrap16_inside wrap16_above wrap16_below)
qed

lemma truncate_examples:
  "truncate_toward_zero (1 / 2 * 32768) = 16384"
  "truncate_toward_zero (1 * 32768) = 32768"
  "truncate_toward_zero (- (3 / 2) * 32768) = - 49152"
  "truncate_toward_zero (- (1 / 100000) * 32768) = 0"
  by (simp_all add: truncate_toward_zero_def)

text \<open>
  C7. For every block of samples the capture encoder produces one 16-bit integer for
  each sample, from that sample alone: a finite sample is multiplied by 32768,
  truncated towards zero and wrapped to 16 bits. For a sample in \<open>[-1, 1)\<close> the
  result is the truncated product itself. Nothing clamps: a sample in \<open>[1, 3)\<close>
  gives the truncated product minus 65536 and a sample in \<open>(-3, -1 - 1/32768]\<close> the
  truncated product plus 65536. A sample that is not finite gives 0. The chunk's
  payload is the transport text of these integers' bytes.
\<close>

theorem C7_pcm16_truncates_and_wraps:
  "length (int16_block inputData) = length inputData
   \<and> (\<forall>i < length inputData.
        (\<forall>x. inputData ! i = Finite x \<longrightarrow>
           sint (int16_block inputData ! i) = wrap16 (truncate_toward_zero (x * 32768))
           \<and> (- 1 \<le> x \<and> x < 1 \<longrightarrow>
                sint (int16_block inputData ! i) = truncate_toward_zero (x * 32768))
           \<and> (1 \<le> x \<and> x < 3 \<longrightarrow>
                sint (int16_block inputData ! i) = truncate_toward_zero (x * 32768) - 65536)
           \<and> (- 3 < x \<and> x \<le> - 1 - 1 / 32768 \<longrightarrow>
                sint (int16_block inputData ! i) = truncate_toward_zero (x * 32768) + 65536))
        \<and> (inputData ! i \<in> {NaN, PosInfinity, NegInfinity} \<longrightarrow> int16_block inputData ! i = 0))
   \<and> blob_data (onaudioprocess rate inputData) = encode (buffer_bytes (int16_block inputData))"
proof -
  have finite: "sint (int16_block inputData ! i) = wrap16 (truncate_toward_zero (x * 32768))"
    if "i < length inputData" "inputData ! i = Finite x" for i x
    using that by (simp add: int16_block_def scale_sample_def sint_ToInt16_Finite)
  have inside: "sint (int16_block inputData ! i) = truncate_toward_zero (x * 32768)"
    if "i < length inputData" "inputData ! i = Finite x" "- 1 \<le> x" "x < 1" for i x
    using that sample_in_range [of x] by (simp add: int16_block_def)
  have above: "sint (int16_block inputData ! i) = truncate_toward_zero (x * 32768) - 65536"
    if "i < length inputData" "inputData ! i = Finite x" "1 \<le> x" "x < 3" for i x
    using that sample_above_range [of x] by (simp add: int16_block_def)
  have below: "sint (int16_block inputData ! i) = truncate_toward_zero (x * 32768) + 65536"
    if "i < length inputData" "inputData ! i = Finite x" "- 3 < x" "x \<le> - 1 - 1 / 32768" for i x
    using that sample_below_range [of x] by (simp add: int16_block_def)
  have other: "int16_block inputData ! i = 0"
    if "i < length inputData" "inputData ! i \<in> {NaN, PosInfinity, NegInfinity}" for i
    using that by (auto simp: int16_block_def scale_sample_def ToInt16_def)
  have len: "length (int16_block inputData) = length inputData"
    by (simp add: int16_block_def)
  have blob: "blob_data (onaudioprocess rate inputData) = encode (buffer_bytes (int16_block inputData))"
    by (simp add: onaudioprocess_def)
  show ?thesis
  proof (intro conjI allI impI)
    show "length (int16_block inputData) = length inputData" by (rule len)
    show "blob_data (onaudioprocess rate inputData) = encode (buffer_bytes (int16_block inputData))"
      by (rule blob)
  next
    fix i x
    assume i: "i < length inputData" and x: "inputData ! i = Finite x"
    show "sint (int16_block inputData ! i) = wrap16 (truncate_toward_zero (x * 32768))"
      by (rule finite [OF i x])
    show "sint (int16_block inputData ! i) = truncate_toward_zero (x * 32768)"
      if "- 1 \<le> x \<and> x < 1"
      using that inside [OF i x] by simp
    show "sint (int16_block inputData ! i) = truncate_toward_zero (x * 32768) - 65536"
      if "1 \<le> x \<and> x < 3"
      using that above [OF i x] by simp
    show "sint (int16_block inputData ! i) = truncate_toward_zero (x * 32768) + 65536"
      if "- 3 < x \<and> x \<le> - 1 - 1 / 32768"
      using that below [OF i x] by simp
  next
    fix i
    assume "i < length inputData" "inputData ! i \<in> {NaN, PosInfinity, NegInfinity}"
    then show "int16_block inputData ! i = 0" by (rule other)
  qed
qed

theorem C7_witness:
  "sint (int16_block [Finite (1 / 2), Finite 1, Finite (- (3 / 2)), NaN] ! 0) = 16384
   \<and> sint (int16_block [Finite (1 / 2), Finite 1, Finite (- (3 / 2)), NaN] ! 1) = - 32768
   \<and> sint (int16_block [Finite (1 / 2), Finite 1, Finite (- (3 / 2)), NaN] ! 2) = 16384
   \<and> int16_block [Finite (1 / 2), Finite 1, Finite (- (3 / 2)), NaN] ! 3 = 0"
proof -
  let ?block = "[Finite (1 / 2), Finite 1, Finite (- (3 / 2)), NaN]"
  have c7: "\<forall>i < length ?block.
        (\<forall>x. ?block ! i = Finite x \<longrightarrow>
           sint (int16_block ?block ! i) = wrap16 (truncate_toward_zero (x * 32768))
           \<and> (- 1 \<le> x \<and> x < 1 \<longrightarrow>
                sint (int16_block ?block ! i) = truncate_toward_zero (x * 32768))
           \<and> (1 \<le> x \<and> x < 3 \<longrightarrow>
                sint (int16_block ?block ! i) = truncate_toward_zero (x * 32768) - 65536)
           \<and> (- 3 < x \<and> x \<le> - 1 - 1 / 32768 \<longrightarrow>
                sint (int16_block ?block ! i) = truncate_toward_zero (x * 32768) + 65536))
        \<and> (?block ! i \<in> {NaN, PosInfinity, NegInfinity} \<longrightarrow> int16_block ?block ! i = 0)"
    using C7_pcm16_truncates_and_wraps [of ?block "''16000''"] by (elim conjE)
  have a: "sint (int16_block ?block ! 0) = truncate_toward_zero (1 / 2 * 32768)"
    using c7 [rule_format, of 0, THEN conjunct1, rule_format, of "1 / 2"] by simp
  have b: "sint (int16_block ?block ! 1) = truncate_toward_zero (1 * 32768) - 65536"
    using c7 [rule_format, of 1, THEN conjunct1, rule_format, of 1] by simp
  have c: "sint (int16_block ?block ! 2) = truncate_toward_zero (- (3 / 2) * 32768) + 65536"
    using c7 [rule_format, of 2, THEN conjunct1, rule_format, of "- (3 / 2)"] by simp
  have d: "int16_block ?block ! 3 = 0"
    using c7 [rule_format, of 3, THEN conjunct2] by simp
  show ?thesis
    unfolding a b c d truncate_examples by simp
qed

subsection \<open>Playback scheduling\<close>



























end
